theory Spec2Isabelle
  imports Complex_Main "HOL-Library.Multiset" "HOL-Library.Char_ord" "HOL-Library.List_Lexorder"
begin

section \<open>Data model\<close>

text \<open>
  The exceptions the library and the connector raise or catch. Each carries the text
  that \<^verbatim>\<open>str(e)\<close> gives. \<open>KeyError\<close> and \<open>MergeError\<close> are raised by the dataframe
  engine; all five are subclasses of Python's \<^verbatim>\<open>Exception\<close>, the last constructor
  being a plain \<^verbatim>\<open>Exception(...)\<close>.
\<close>

datatype error =
    AssertionError string
  | ValueError string
  | KeyError string
  | MergeError string
  | Exception string

fun error_text :: "error \<Rightarrow> string" where
  "error_text (AssertionError m) = m"
| "error_text (ValueError m) = m"
| "error_text (KeyError m) = m"
| "error_text (MergeError m) = m"
| "error_text (Exception m) = m"

fun is_assertion :: "error + 'a \<Rightarrow> bool" where
  "is_assertion (Inl (AssertionError m)) = True"
| "is_assertion r = False"

fun is_value_error :: "error + 'a \<Rightarrow> bool" where
  "is_value_error (Inl (ValueError m)) = True"
| "is_value_error r = False"

text \<open>
  A scalar of a table: a number, a timestamp, a string, or one of the three nulls
  \<^verbatim>\<open>None\<close>, \<^verbatim>\<open>NaN\<close> and \<^verbatim>\<open>NaT\<close>, which the engine tells apart when it compares values.
  Numbers of integer and of floating dtype are one kind (the comparison of the
  completeness check is made with \<^verbatim>\<open>check_dtype=False\<close>): a number is the rational that an
  int64 or a finite double denotes.
\<close>

datatype cell = Num rat | Ts int | Str string | PyNone | NaN | NaT

fun isna :: "cell \<Rightarrow> bool" where
  "isna PyNone = True"
| "isna NaN = True"
| "isna NaT = True"
| "isna v = False"

text \<open>
  A DataFrame: the column labels and the rows, each row with its index label.
  \<^verbatim>\<open>len(df)\<close> is the number of rows.
\<close>

record dataframe =
  columns :: "string list"
  rows :: "(int \<times> cell list) list"

definition len :: "dataframe \<Rightarrow> int" where
  "len df = int (length (rows df))"

definition empty :: "dataframe \<Rightarrow> bool" where
  \<comment> \<open>\<^verbatim>\<open>df.empty\<close>: some axis has length 0\<close>
  "empty df = (length (rows df) = 0 \<or> length (columns df) = 0)"

fun col_pos :: "string list \<Rightarrow> string \<Rightarrow> nat" where
  "col_pos [] c = 0"
| "col_pos (x # xs) c = (if x = c then 0 else Suc (col_pos xs c))"

definition column_values :: "dataframe \<Rightarrow> string \<Rightarrow> cell list" where
  \<comment> \<open>\<^verbatim>\<open>df[column]\<close>, for a label that exactly one column of the frame has\<close>
  "column_values df c = map (\<lambda>r. snd r ! col_pos (columns df) c) (rows df)"

definition head :: "int \<Rightarrow> dataframe \<Rightarrow> dataframe" where
  \<comment> \<open>\<^verbatim>\<open>df.head(n)\<close>: the first n rows; all but the last \<open>-n\<close> when n is negative\<close>
  "head n df =
     df\<lparr>rows := (if 0 \<le> n then take (nat n) (rows df)
                  else take (nat (len df + n)) (rows df))\<rparr>"

subsection \<open>Formatting\<close>

definition digit_char :: "nat \<Rightarrow> char" where
  "digit_char d = (''0123456789'' ! d)"

fun str_nat :: "nat \<Rightarrow> string" where
  "str_nat n = (if n < 10 then [digit_char n] else str_nat (n div 10) @ [digit_char (n mod 10)])"

declare str_nat.simps [simp del]

definition str_int :: "int \<Rightarrow> string" where
  \<comment> \<open>\<^verbatim>\<open>str(i)\<close> of a Python int, as an f-string formats it\<close>
  "str_int i = (if i < 0 then CHR ''-'' # str_nat (nat (- i)) else str_nat (nat i))"

definition newline :: string where
  "newline = [CHR 0x0A]"

fun join :: "string \<Rightarrow> string list \<Rightarrow> string" where
  "join sep [] = []"
| "join sep [x] = x"
| "join sep (x # y # ys) = x @ sep @ join sep (y # ys)"

section \<open>DataQualityLibrary\<close>

subsection \<open>check\_count\<close>

definition check_count :: "dataframe \<Rightarrow> dataframe \<Rightarrow> error + unit" where
  "check_count source_df target_df =
     (let source_count = len source_df;
          target_count = len target_df
      in if source_count = target_count then Inr ()
         else Inl (AssertionError
           (''Row count mismatch: Source has '' @ str_int source_count @ '' rows, '' @
            ''but Target has '' @ str_int target_count @ '' rows. '' @
            ''Difference: '' @ str_int (abs (source_count - target_count)) @ '' rows.'')))"

subsection \<open>check\_dataset\_is\_not\_empty\<close>

definition check_dataset_is_not_empty :: "dataframe \<Rightarrow> error + unit" where
  "check_dataset_is_not_empty df =
     (if empty df then Inl (AssertionError ''Dataset is empty. Expected at least one row.'')
      else if \<not> length (columns df) > 0 then Inl (AssertionError ''Dataset has no columns.'')
      else Inr ())"

subsection \<open>check\_not\_null\_values\<close>

definition null_count :: "dataframe \<Rightarrow> string \<Rightarrow> nat" where
  \<comment> \<open>\<^verbatim>\<open>df[column].isna().sum()\<close>\<close>
  "null_count df c = length (filter isna (column_values df c))"

definition ambiguous_truth_value :: string where
  "ambiguous_truth_value =
     ''The truth value of a Series is ambiguous. '' @
     ''Use a.empty, a.bool(), a.item(), a.any() or a.all().''"

text \<open>
  The loop over \<^verbatim>\<open>column_names\<close>, with the list \<^verbatim>\<open>null_columns\<close> it appends to. For a
  label that several columns of the frame have, \<^verbatim>\<open>df[column]\<close> is a frame and
  \<^verbatim>\<open>null_count\<close> a Series of counts, and the test \<^verbatim>\<open>if null_count > 0\<close> raises the engine's
  ValueError.
\<close>

fun scan_columns ::
  "dataframe \<Rightarrow> string list \<Rightarrow> (string \<times> nat) list \<Rightarrow> error + (string \<times> nat) list" where
  "scan_columns df [] null_columns = Inr null_columns"
| "scan_columns df (column # column_names) null_columns =
     (if column \<notin> set (columns df)
      then Inl (ValueError (''Column '' @ [CHR 0x27] @ column @ [CHR 0x27] @
                            '' does not exist in the DataFrame.''))
      else if count_list (columns df) column > 1
      then Inl (ValueError ambiguous_truth_value)
      else if null_count df column > 0
      then scan_columns df column_names (null_columns @ [(column, null_count df column)])
      else scan_columns df column_names null_columns)"

definition null_line :: "string \<times> nat \<Rightarrow> string" where
  "null_line p = ''  - '' @ fst p @ '': '' @ str_int (int (snd p)) @ '' null values''"

definition check_not_null_values :: "dataframe \<Rightarrow> string list \<Rightarrow> error + unit" where
  "check_not_null_values df column_names =
     (case scan_columns df column_names [] of
        Inl e \<Rightarrow> Inl e
      | Inr null_columns \<Rightarrow>
          if length null_columns = 0 then Inr ()
          else Inl (AssertionError
            (''Found null values in the following columns:'' @ newline @
             join newline (map null_line null_columns))))"

subsection \<open>check\_duplicates\<close>

definition row_key :: "string list \<Rightarrow> string list \<Rightarrow> cell list \<Rightarrow> cell list" where
  \<comment> \<open>the cells of a row under the named columns\<close>
  "row_key cols names r = map (\<lambda>c. r ! col_pos cols c) names"



definition select_rows :: "dataframe \<Rightarrow> bool list \<Rightarrow> dataframe" where
  \<comment> \<open>\<^verbatim>\<open>df[flags]\<close>, the flags as long as the frame\<close>
  "select_rows df flags = df\<lparr>rows := map fst (filter snd (zip (rows df) flags))\<rparr>"








subsection \<open>check\_data\_completeness\<close>

text \<open>
  The order \<^verbatim>\<open>sort_values\<close> sorts a column by, for a column that holds one kind of value
  and one kind of null (a column of a frame has a dtype): numbers and timestamps by value,
  strings by code point, nulls last (\<^verbatim>\<open>na_position='last'\<close>). On a column that mixes kinds
  the engine compares values that Python does not order and may raise a TypeError; that
  is outside this model, which orders the kinds by \<open>kind\<close>. The properties of the
  completeness check below that rest on the sort are stated for frames that are
  \<open>one_kind\<close>.
\<close>

fun kind :: "cell \<Rightarrow> nat" where
  "kind (Num a) = 0"
| "kind (Ts a) = 1"
| "kind (Str a) = 2"
| "kind PyNone = 3"
| "kind NaN = 4"
| "kind NaT = 5"

fun cell_le :: "cell \<Rightarrow> cell \<Rightarrow> bool" where
  "cell_le (Num a) (Num b) = (a \<le> b)"
| "cell_le (Ts a) (Ts b) = (a \<le> b)"
| "cell_le (Str a) (Str b) = (a \<le> b)"
| "cell_le x y = (kind x \<le> kind y)"



instantiation cell :: linorder
begin

definition less_eq_cell :: "cell \<Rightarrow> cell \<Rightarrow> bool" where
  "less_eq_cell x y = cell_le x y"

definition less_cell :: "cell \<Rightarrow> cell \<Rightarrow> bool" where
  "less_cell x y = (cell_le x y \<and> \<not> cell_le y x)"

instance
proof
  fix x y z :: cell
  show "(x < y) = (x \<le> y \<and> \<not> y \<le> x)"
    by (simp add: less_cell_def less_eq_cell_def)
  show "x \<le> x"
    by (cases x) (simp_all add: less_eq_cell_def)
  show "x \<le> y \<Longrightarrow> y \<le> z \<Longrightarrow> x \<le> z"
    by (cases x; cases y; cases z) (auto simp: less_eq_cell_def)
  show "x \<le> y \<Longrightarrow> y \<le> x \<Longrightarrow> x = y"
    by (cases x; cases y) (auto simp: less_eq_cell_def)
  show "x \<le> y \<or> y \<le> x"
    by (cases x; cases y) (auto simp: less_eq_cell_def)
qed

end

definition reset_index :: "dataframe \<Rightarrow> dataframe" where
  \<comment> \<open>\<^verbatim>\<open>df.reset_index(drop=True)\<close>: the labels become 0, 1, ...\<close>
  "reset_index df = df\<lparr>rows := zip (map int [0..<length (rows df)]) (map snd (rows df))\<rparr>"

definition sort_values :: "dataframe \<Rightarrow> dataframe" where
  \<comment> \<open>\<^verbatim>\<open>df.sort_values(by=list(df.columns))\<close>: rows ascending by the tuple of all cells\<close>
  "sort_values df = df\<lparr>rows := sort_key snd (rows df)\<rparr>"

text \<open>
  The tolerance test is \<^verbatim>\<open>math.isclose(fa, fb, rel_tol=rtol, abs_tol=atol)\<close> on doubles:
  the difference and the two products are rounded to the nearest double, ties to even.
  \<open>to_double\<close> is that rounding (53 bits, the subnormal spacing below \<open>2 ^ -1022\<close>); a
  result beyond the largest double is left as it is, which the comparisons below do not
  tell from infinity.
\<close>

function bit_length :: "int \<Rightarrow> int" where
  "bit_length n = (if n \<le> 0 then 0 else 1 + bit_length (n div 2))"
  by pat_completeness auto
termination
  by (relation "measure nat") auto

declare bit_length.simps [simp del]

definition pow2 :: "int \<Rightarrow> rat" where
  "pow2 k = (if 0 \<le> k then 2 ^ nat k else 1 / 2 ^ nat (- k))"

definition floor_log2 :: "rat \<Rightarrow> int" where
  \<comment> \<open>for a positive q, the e with \<open>2 ^ e \<le> q < 2 ^ (e + 1)\<close>\<close>
  "floor_log2 q =
     (if 1 \<le> q then bit_length \<lfloor>q\<rfloor> - 1
      else (let b = bit_length \<lfloor>1 / q\<rfloor>
            in if pow2 (1 - b) \<le> q then 1 - b else - b))"

definition half_even :: "rat \<Rightarrow> int" where
  "half_even m =
     (let f = \<lfloor>m\<rfloor>; r = m - of_int f
      in if r < 1 / 2 then f else if 1 / 2 < r then f + 1
         else if even f then f else f + 1)"

definition to_double :: "rat \<Rightarrow> rat" where
  "to_double q =
     (if q = 0 then 0
      else (let u = pow2 (max (floor_log2 \<bar>q\<bar> - 52) (- 1074))
            in sgn q * of_int (half_even (\<bar>q\<bar> / u)) * u))"

definition rtol :: rat where
  \<comment> \<open>the double \<^verbatim>\<open>1e-5\<close>\<close>
  "rtol = to_double (1 / 100000)"

definition atol :: rat where
  \<comment> \<open>the engine's default absolute tolerance, the double \<^verbatim>\<open>1e-8\<close>\<close>
  "atol = to_double (1 / 100000000)"

definition isclose :: "rat \<Rightarrow> rat \<Rightarrow> bool" where
  \<comment> \<open>\<^verbatim>\<open>math.isclose\<close> on two doubles\<close>
  "isclose fa fb =
     (fa = fb \<or>
      (let diff = \<bar>to_double (fb - fa)\<bar>
       in diff \<le> \<bar>to_double (rtol * fb)\<bar> \<or> diff \<le> \<bar>to_double (rtol * fa)\<bar> \<or>
          diff \<le> atol))"

definition is_close :: "rat \<Rightarrow> rat \<Rightarrow> bool" where
  \<comment> \<open>the engine's test on two numbers: equal, or close as doubles\<close>
  "is_close a b = (a = b \<or> isclose (to_double a) (to_double b))"

fun almost_equal :: "cell \<Rightarrow> cell \<Rightarrow> bool" where
  "almost_equal (Num a) (Num b) = is_close a b"
| "almost_equal (Ts a) (Ts b) = (a = b)"
| "almost_equal (Str a) (Str b) = (a = b)"
| "almost_equal PyNone PyNone = True"
| "almost_equal NaN NaN = True"
| "almost_equal NaT NaT = True"
| "almost_equal x y = False"

definition assert_frame_equal :: "dataframe \<Rightarrow> dataframe \<Rightarrow> error + unit" where
  \<comment> \<open>\<^verbatim>\<open>pd.testing.assert_frame_equal(l, r, check_dtype=False, check_exact=False, rtol=1e-5)\<close>:
      shape, index, column labels, then the cells of every row within the tolerance; the
      handler of the check does not read the text of this exception\<close>
  "assert_frame_equal l r =
     (if length (rows l) \<noteq> length (rows r) \<or> length (columns l) \<noteq> length (columns r)
      then Inl (AssertionError ''DataFrame shape mismatch'')
      else if \<not> list_all2 (\<lambda>x y. is_close (of_int (fst x)) (of_int (fst y))) (rows l) (rows r)
      then Inl (AssertionError ''DataFrame.index are different'')
      else if columns l \<noteq> columns r
      then Inl (AssertionError ''DataFrame.columns are different'')
      else if \<not> list_all2 (\<lambda>x y. list_all2 almost_equal (snd x) (snd y)) (rows l) (rows r)
      then Inl (AssertionError ''DataFrame values are different'')
      else Inr ())"

definition get_column :: "dataframe \<Rightarrow> string \<Rightarrow> error + cell list" where
  \<comment> \<open>\<^verbatim>\<open>df[name]\<close> for any name: a KeyError when the frame has no such column\<close>
  "get_column df c =
     (if c \<in> set (columns df) then Inr (column_values df c)
      else Inl (KeyError ([CHR 0x27] @ c @ [CHR 0x27])))"

definition drop_column :: "dataframe \<Rightarrow> string \<Rightarrow> error + dataframe" where
  \<comment> \<open>\<^verbatim>\<open>df.drop(name, axis=1)\<close>\<close>
  "drop_column df c =
     (if c \<in> set (columns df)
      then Inr \<lparr>columns = filter (\<lambda>x. x \<noteq> c) (columns df),
                rows = map (\<lambda>r. (fst r, map snd (filter (\<lambda>p. fst p \<noteq> c) (zip (columns df) (snd r)))))
                         (rows df)\<rparr>
      else Inl (KeyError ([CHR 0x27] @ c @ [CHR 0x27])))"

definition only_rows :: "dataframe \<Rightarrow> string \<Rightarrow> error + dataframe" where
  \<comment> \<open>\<^verbatim>\<open>merged[merged['_merge'] == side].drop('_merge', axis=1)\<close>\<close>
  "only_rows merged side =
     (case get_column merged ''_merge'' of
        Inl e \<Rightarrow> Inl e
      | Inr ind \<Rightarrow> drop_column (select_rows merged (map (\<lambda>v. v = Str side) ind)) ''_merge'')"

definition side_msg :: "(dataframe \<Rightarrow> string) \<Rightarrow> string \<Rightarrow> dataframe \<Rightarrow> int \<Rightarrow> string" where
  \<comment> \<open>the lines for one side of the difference: title, count, sample, rows not shown\<close>
  "side_msg to_string title d max_display =
     (let sample = head max_display d;
          more_rows = (if len d > max_display then len d - max_display else 0)
      in title @ '' ('' @ str_int (len d) @ '' total):'' @ newline @
         to_string sample @ newline @
         (if more_rows > 0 then ''... and '' @ str_int more_rows @ '' more rows not shown.'' @ newline
          else []))"

text \<open>
  The inner \<^verbatim>\<open>try\<close> block: the text it appends to \<^verbatim>\<open>error_msg\<close>, or the exception of
  the merge or of the selection. \<open>merge\<close> is the engine's
  \<^verbatim>\<open>left.merge(right, how='outer', indicator=True)\<close>.
\<close>

definition detail_msg ::
  "(dataframe \<Rightarrow> dataframe \<Rightarrow> error + dataframe) \<Rightarrow> (dataframe \<Rightarrow> string) \<Rightarrow>
   dataframe \<Rightarrow> dataframe \<Rightarrow> int \<Rightarrow> error + string" where
  "detail_msg merge to_string source_df_sorted target_df_sorted max_display =
     (case merge source_df_sorted target_df_sorted of
        Inl e \<Rightarrow> Inl e
      | Inr merged \<Rightarrow>
          (case only_rows merged ''left_only'' of
             Inl e \<Rightarrow> Inl e
           | Inr missing_in_target \<Rightarrow>
               (case only_rows merged ''right_only'' of
                  Inl e \<Rightarrow> Inl e
                | Inr extra_in_target \<Rightarrow>
                    Inr ((if len missing_in_target > 0
                          then side_msg to_string ''Rows missing in target''
                                 missing_in_target max_display @ newline
                          else []) @
                         (if len extra_in_target > 0
                          then side_msg to_string ''Extra rows in target not in source''
                                 extra_in_target max_display
                          else [])))))"

definition count_msg :: "dataframe \<Rightarrow> dataframe \<Rightarrow> string" where
  "count_msg source_df_sorted target_df_sorted =
     ''Data completeness check failed:'' @ newline @ newline @
     ''Row count - Source: '' @ str_int (len source_df_sorted) @
     '', Target: '' @ str_int (len target_df_sorted) @ newline @
     ''Difference: '' @ str_int (abs (len source_df_sorted - len target_df_sorted)) @
     '' rows'' @ newline @ newline"

definition causes_msg :: "error \<Rightarrow> string" where
  "causes_msg merge_error =
     newline @ ''Unable to perform detailed comparison: '' @ error_text merge_error @ newline @
     newline @ ''Possible causes:'' @ newline @
     ''- Data type mismatches between source and target'' @ newline @
     ''- Column name differences'' @ newline @
     ''- Date/datetime format inconsistencies'' @ newline"

definition compare_sorted ::
  "(dataframe \<Rightarrow> dataframe \<Rightarrow> error + dataframe) \<Rightarrow> (dataframe \<Rightarrow> string) \<Rightarrow>
   dataframe \<Rightarrow> dataframe \<Rightarrow> int \<Rightarrow> error + unit" where
  \<comment> \<open>lines 95 to 149: the comparison and the handler of its failure\<close>
  "compare_sorted merge to_string source_df_sorted target_df_sorted max_display =
     (case assert_frame_equal source_df_sorted target_df_sorted of
        Inr u \<Rightarrow> Inr ()
      | Inl e \<Rightarrow>
          (case detail_msg merge to_string source_df_sorted target_df_sorted max_display of
             Inr detail \<Rightarrow>
               Inl (AssertionError (count_msg source_df_sorted target_df_sorted @ detail))
           | Inl merge_error \<Rightarrow>
               Inl (AssertionError (count_msg source_df_sorted target_df_sorted @
                                    causes_msg merge_error))))"

definition check_data_completeness ::
  "(dataframe \<Rightarrow> dataframe \<Rightarrow> error + dataframe) \<Rightarrow> (dataframe \<Rightarrow> string) \<Rightarrow>
   dataframe \<Rightarrow> dataframe \<Rightarrow> int \<Rightarrow> error + unit" where
  "check_data_completeness merge to_string source_df target_df max_display =
     (let source_df_reset = reset_index source_df;
          target_df_reset = reset_index target_df;
          source_df_sorted = reset_index (sort_values source_df_reset);
          target_df_sorted = reset_index (sort_values target_df_reset)
      in compare_sorted merge to_string source_df_sorted target_df_sorted max_display)"

text \<open>
  An instance of the engine's outer merge with indicator, for frames whose shared columns
  hold one kind of value in both frames and no null: the keys are the columns the two
  frames share, in the left frame's order; no shared column is a MergeError; the result
  goes through the keys in ascending order and carries the column \<^verbatim>\<open>_merge\<close>. The check
  itself takes the merge as a parameter, whatever it returns or raises.
\<close>

definition merge_outer :: "dataframe \<Rightarrow> dataframe \<Rightarrow> error + dataframe" where
  "merge_outer l r =
     (let common = filter (\<lambda>c. c \<in> set (columns r)) (columns l);
          rest = filter (\<lambda>c. c \<notin> set (columns l)) (columns r);
          lkey = (\<lambda>x. row_key (columns l) common (snd x));
          rkey = (\<lambda>y. row_key (columns r) common (snd y));
          rrest = (\<lambda>y. row_key (columns r) rest (snd y));
          lside = (\<lambda>y. map (\<lambda>c. if c \<in> set (columns r)
                                  then snd y ! col_pos (columns r) c else NaN) (columns l));
          ks = remdups (sort (map lkey (rows l) @ map rkey (rows r)));
          out = (\<lambda>k.
            (let ls = filter (\<lambda>x. lkey x = k) (rows l);
                 rs = filter (\<lambda>y. rkey y = k) (rows r)
             in if rs = []
                then map (\<lambda>x. snd x @ replicate (length rest) NaN @ [Str ''left_only'']) ls
                else if ls = []
                then map (\<lambda>y. lside y @ rrest y @ [Str ''right_only'']) rs
                else concat (map (\<lambda>x. map (\<lambda>y. snd x @ rrest y @ [Str ''both'']) rs) ls)))
      in if common = []
         then Inl (MergeError
                (''No common columns to perform merge on. Merge options: left_on=None, '' @
                 ''right_on=None, left_index=False, right_index=False''))
         else Inr (reset_index \<lparr>columns = columns l @ rest @ [''_merge''],
                                rows = map (Pair 0) (concat (map out ks))\<rparr>))"

text \<open>
  The same check with the frames as objects: the store is the list of the frames
  allocated so far, an object is its position. \<^verbatim>\<open>reset_index\<close> and \<^verbatim>\<open>sort_values\<close> are
  called without \<^verbatim>\<open>inplace=True\<close>, so each call allocates its result.
\<close>

type_synonym store = "dataframe list"

definition new_object :: "store \<Rightarrow> dataframe \<Rightarrow> nat \<times> store" where
  "new_object h df = (length h, h @ [df])"

definition check_data_completeness_refs ::
  "(dataframe \<Rightarrow> dataframe \<Rightarrow> error + dataframe) \<Rightarrow> (dataframe \<Rightarrow> string) \<Rightarrow>
   store \<Rightarrow> nat \<Rightarrow> nat \<Rightarrow> int \<Rightarrow> (error + unit) \<times> store" where
  "check_data_completeness_refs merge to_string h source_df target_df max_display =
     (let (source_df_reset, h1) = new_object h (reset_index (h ! source_df));
          (target_df_reset, h2) = new_object h1 (reset_index (h1 ! target_df));
          (source_tmp, h3) = new_object h2 (sort_values (h2 ! source_df_reset));
          (source_df_sorted, h4) = new_object h3 (reset_index (h3 ! source_tmp));
          (target_tmp, h5) = new_object h4 (sort_values (h4 ! target_df_reset));
          (target_df_sorted, h6) = new_object h5 (reset_index (h5 ! target_tmp))
      in (compare_sorted merge to_string (h6 ! source_df_sorted) (h6 ! target_df_sorted)
            max_display, h6))"

section \<open>PostgresConnectorContextManager\<close>

text \<open>
  The database driver and server, as far as the connector sees them: whether a connection
  is refused (with the driver's text), what a query gives, and the trace of what was done.
  A connection and a cursor are handles, numbered by the length of the trace at their
  creation.
\<close>

datatype event =
    Connected nat
  | CursorOpened nat nat
  | CursorClosed nat
  | ConnectionClosed nat
  | QueryRun nat string

record server =
  refuses :: "string option"
  answer :: "string \<Rightarrow> error + dataframe"
  trace :: "event list"

record connector =
  db_host :: string
  db_name :: string
  db_port :: int
  db_user :: string
  db_password :: string
  connection :: "nat option"
  cursor :: "nat option"

definition init :: "string \<Rightarrow> string \<Rightarrow> int \<Rightarrow> string \<Rightarrow> string \<Rightarrow> connector" where
  "init host dbname port user password =
     \<lparr>db_host = host, db_name = dbname, db_port = port, db_user = user,
      db_password = password, connection = None, cursor = None\<rparr>"

definition log_event :: "event \<Rightarrow> server \<Rightarrow> server" where
  "log_event e w = w\<lparr>trace := trace w @ [e]\<rparr>"

definition enter :: "connector \<Rightarrow> server \<Rightarrow> (error + connector) \<times> server" where
  "enter self w =
     (case refuses w of
        Some m \<Rightarrow> (Inl (Exception (''Failed to connect to database: '' @ m)), w)
      | None \<Rightarrow>
          (let c = length (trace w);
               w1 = log_event (Connected c) w;
               k = length (trace w1);
               w2 = log_event (CursorOpened c k) w1
           in (Inr (self\<lparr>connection := Some c, cursor := Some k\<rparr>), w2)))"

definition exit :: "connector \<Rightarrow> error option \<Rightarrow> server \<Rightarrow> server" where
  \<comment> \<open>\<^verbatim>\<open>__exit__(exc_type, exc_value, exc_tb)\<close>; it returns None, so the exception of the
      block, if any, goes on\<close>
  "exit self exc w =
     (let w1 = (case cursor self of Some k \<Rightarrow> log_event (CursorClosed k) w | None \<Rightarrow> w)
      in (case connection self of Some c \<Rightarrow> log_event (ConnectionClosed c) w1 | None \<Rightarrow> w1))"

definition get_data_sql :: "connector \<Rightarrow> string \<Rightarrow> server \<Rightarrow> (error + dataframe) \<times> server" where
  "get_data_sql self query w =
     (case connection self of
        None \<Rightarrow>
          (Inl (Exception (''Database connection is not established. '' @
                           ''Use this method within a context manager.'')), w)
      | Some c \<Rightarrow>
          (case answer w query of
             Inr df \<Rightarrow> (Inr df, log_event (QueryRun c query) w)
           | Inl e \<Rightarrow> (Inl (Exception (''Failed to execute query: '' @ error_text e)),
                       log_event (QueryRun c query) w)))"

text \<open>
  The \<^verbatim>\<open>with\<close> statement of the session fixture: enter, the block with the connector,
  exit on both ways out of the block.
\<close>

definition with_connector ::
  "connector \<Rightarrow> (connector \<Rightarrow> server \<Rightarrow> (error + 'a) \<times> server) \<Rightarrow> server \<Rightarrow>
   (error + 'a) \<times> server" where
  "with_connector cm body w =
     (case enter cm w of
        (Inl e, w1) \<Rightarrow> (Inl e, w1)
      | (Inr self, w1) \<Rightarrow>
          (case body self w1 of
             (Inl e, w2) \<Rightarrow> (Inl e, exit self (Some e) w2)
           | (Inr v, w2) \<Rightarrow> (Inr v, exit self None w2)))"

section \<open>Properties\<close>

subsection \<open>Row counts\<close>

text \<open>
  C4: \<open>check_count\<close> returns without raising exactly when the two frames have the same
  number of rows, whatever their columns and cells; when it raises, it raises an
  AssertionError whose text ends with the absolute difference of the two row counts.
\<close>

theorem check_count_iff_len:
  "(check_count A B = Inr ()) = (length (rows A) = length (rows B)) \<and>
   (check_count A B = Inr () \<or>
    check_count A B = Inl (AssertionError
       (''Row count mismatch: Source has '' @ str_int (int (length (rows A))) @
        '' rows, but Target has '' @ str_int (int (length (rows B))) @
        '' rows. Difference: '' @
        str_int \<bar>int (length (rows A)) - int (length (rows B))\<bar> @ '' rows.'')))"
  by (simp add: check_count_def len_def Let_def)

theorem check_count_iff_len_witness:
  "check_count \<lparr>columns = [''a''], rows = [(0, [Num 1]), (1, [NaN])]\<rparr>
               \<lparr>columns = [''b'', ''c''], rows = []\<rparr> \<noteq> Inr () \<and>
   check_count \<lparr>columns = [''a''], rows = [(0, [Num 1])]\<rparr>
               \<lparr>columns = [''b'', ''c''], rows = [(7, [Str ''x'', NaN])]\<rparr> = Inr ()"
  using check_count_iff_len [of "\<lparr>columns = [''a''], rows = [(0, [Num 1]), (1, [NaN])]\<rparr>"
                                "\<lparr>columns = [''b'', ''c''], rows = []\<rparr>"]
        check_count_iff_len [of "\<lparr>columns = [''a''], rows = [(0, [Num 1])]\<rparr>"
                                "\<lparr>columns = [''b'', ''c''], rows = [(7, [Str ''x'', NaN])]\<rparr>"]
  by simp

subsection \<open>Empty datasets\<close>

text \<open>
  C5: \<open>check_dataset_is_not_empty\<close> raises an AssertionError for every frame with no row
  or no column, and returns for every frame with a row and a column.
\<close>

theorem check_dataset_is_not_empty_iff:
  "(rows df = [] \<or> columns df = [] \<longrightarrow> is_assertion (check_dataset_is_not_empty df)) \<and>
   (rows df \<noteq> [] \<and> columns df \<noteq> [] \<longrightarrow> check_dataset_is_not_empty df = Inr ())"
  by (auto simp: check_dataset_is_not_empty_def empty_def)

theorem check_dataset_is_not_empty_iff_witness:
  "is_assertion (check_dataset_is_not_empty \<lparr>columns = [''a''], rows = []\<rparr>) \<and>
   is_assertion (check_dataset_is_not_empty \<lparr>columns = [], rows = [(0, []), (1, [])]\<rparr>) \<and>
   check_dataset_is_not_empty \<lparr>columns = [''a''], rows = [(0, [NaN])]\<rparr> = Inr ()"
  using check_dataset_is_not_empty_iff [of "\<lparr>columns = [''a''], rows = []\<rparr>"]
        check_dataset_is_not_empty_iff [of "\<lparr>columns = [], rows = [(0, []), (1, [])]\<rparr>"]
        check_dataset_is_not_empty_iff [of "\<lparr>columns = [''a''], rows = [(0, [NaN])]\<rparr>"]
  by simp

subsection \<open>Duplicates\<close>


subsection \<open>The guard of the query method\<close>

text \<open>
  C10, as the code has it: \<open>get_data_sql\<close> called while the attribute \<open>connection\<close> is None,
  which is so for a connector that was never entered, raises the exception that says the
  connection is not established, for every query, and leaves the server as it was: no
  query is run. While the attribute holds a connection the guard does not fire: the query
  is run on that connection and the exception, if any, is another one. Entering sets the
  attribute, and leaving the context does not reset it.
\<close>

theorem get_data_sql_guard:
  "(connection self = None \<longrightarrow>
      get_data_sql self query w =
        (Inl (Exception
           ''Database connection is not established. Use this method within a context manager.''),
         w)) \<and>
   (\<forall>c. connection self = Some c \<longrightarrow>
      trace (snd (get_data_sql self query w)) = trace w @ [QueryRun c query] \<and>
      fst (get_data_sql self query w) \<noteq>
        Inl (Exception
           ''Database connection is not established. Use this method within a context manager.'')) \<and>
   connection (init host dbname port user password) = None \<and>
   (\<forall>cm w0 w1. enter cm w0 = (Inr self, w1) \<longrightarrow> connection self \<noteq> None)"
proof (intro conjI allI impI)
  assume "connection self = None"
  then show "get_data_sql self query w =
        (Inl (Exception
           ''Database connection is not established. Use this method within a context manager.''),
         w)"
    by (simp add: get_data_sql_def)
next
  fix c
  assume c: "connection self = Some c"
  show "trace (snd (get_data_sql self query w)) = trace w @ [QueryRun c query]"
    by (cases "answer w query") (simp_all add: get_data_sql_def c log_event_def)
  show "fst (get_data_sql self query w) \<noteq>
        Inl (Exception
           ''Database connection is not established. Use this method within a context manager.'')"
    by (cases "answer w query") (simp_all add: get_data_sql_def c)
next
  show "connection (init host dbname port user password) = None"
    by (simp add: init_def)
next
  fix cm w0 w1
  assume "enter cm w0 = (Inr self, w1)"
  then show "connection self \<noteq> None"
    by (auto simp: enter_def Let_def split: option.splits)
qed

theorem get_data_sql_guard_witness:
  "connection (init ''localhost'' ''mydatabase'' 5434 ''u'' ''p'') = None \<and>
   get_data_sql (init ''localhost'' ''mydatabase'' 5434 ''u'' ''p'') ''SELECT 1''
      \<lparr>refuses = None, answer = (\<lambda>q. Inr \<lparr>columns = [''x''], rows = [(0, [Num 1])]\<rparr>), trace = []\<rparr> =
     (Inl (Exception
        ''Database connection is not established. Use this method within a context manager.''),
      \<lparr>refuses = None, answer = (\<lambda>q. Inr \<lparr>columns = [''x''], rows = [(0, [Num 1])]\<rparr>), trace = []\<rparr>)"
  using get_data_sql_guard
    [of "init ''localhost'' ''mydatabase'' 5434 ''u'' ''p''" "''SELECT 1''"
        "\<lparr>refuses = None, answer = (\<lambda>q. Inr \<lparr>columns = [''x''], rows = [(0, [Num 1])]\<rparr>),
          trace = []\<rparr>"
        "''localhost''" "''mydatabase''" 5434 "''u''" "''p''"]
  by (simp add: init_def)

text \<open>
  Outside an active block, after it: the connector that the block was entered with still
  holds the connection that leaving the block closed, and \<open>get_data_sql\<close> runs the query
  on it instead of raising the exception of the guard.
\<close>

theorem get_data_sql_after_exit_counterexample:
  "enter (init ''localhost'' ''mydatabase'' 5434 ''u'' ''p'')
     \<lparr>refuses = None, answer = (\<lambda>q. Inl (Exception ''connection already closed'')),
      trace = []\<rparr> =
     (Inr (init ''localhost'' ''mydatabase'' 5434 ''u'' ''p''
             \<lparr>connection := Some 0, cursor := Some 1\<rparr>),
      \<lparr>refuses = None, answer = (\<lambda>q. Inl (Exception ''connection already closed'')),
       trace = [Connected 0, CursorOpened 0 1]\<rparr>) \<and>
   exit (init ''localhost'' ''mydatabase'' 5434 ''u'' ''p''
           \<lparr>connection := Some 0, cursor := Some 1\<rparr>) None
     \<lparr>refuses = None, answer = (\<lambda>q. Inl (Exception ''connection already closed'')),
      trace = [Connected 0, CursorOpened 0 1]\<rparr> =
     \<lparr>refuses = None, answer = (\<lambda>q. Inl (Exception ''connection already closed'')),
      trace = [Connected 0, CursorOpened 0 1, CursorClosed 1, ConnectionClosed 0]\<rparr> \<and>
   get_data_sql (init ''localhost'' ''mydatabase'' 5434 ''u'' ''p''
                   \<lparr>connection := Some 0, cursor := Some 1\<rparr>) ''SELECT 1''
     \<lparr>refuses = None, answer = (\<lambda>q. Inl (Exception ''connection already closed'')),
      trace = [Connected 0, CursorOpened 0 1, CursorClosed 1, ConnectionClosed 0]\<rparr> =
     (Inl (Exception ''Failed to execute query: connection already closed''),
      \<lparr>refuses = None, answer = (\<lambda>q. Inl (Exception ''connection already closed'')),
       trace = [Connected 0, CursorOpened 0 1, CursorClosed 1, ConnectionClosed 0,
                QueryRun 0 ''SELECT 1'']\<rparr>)"
  by (simp add: enter_def exit_def get_data_sql_def log_event_def init_def Let_def)

subsection \<open>Null values\<close>

lemma null_count_pos: "(0 < null_count df c) = (\<exists>v\<in>set (column_values df c). isna v)"
  by (auto simp: null_count_def filter_empty_conv)

lemma scan_columns_present:
  "set cs \<subseteq> set (columns df) \<Longrightarrow> \<forall>c\<in>set cs. count_list (columns df) c \<le> 1 \<Longrightarrow>
   scan_columns df cs acc =
     Inr (acc @ map (\<lambda>c. (c, null_count df c))
                  (filter (\<lambda>c. \<exists>v\<in>set (column_values df c). isna v) cs))"
proof (induction cs arbitrary: acc)
  case Nil
  then show ?case by simp
next
  case (Cons a cs)
  from Cons.prems have a: "a \<in> set (columns df)" "\<not> 1 < count_list (columns df) a"
    by auto
  from Cons.prems have "set cs \<subseteq> set (columns df)" "\<forall>c\<in>set cs. count_list (columns df) c \<le> 1"
    by auto
  then have ih: "scan_columns df cs acc' =
     Inr (acc' @ map (\<lambda>c. (c, null_count df c))
                   (filter (\<lambda>c. \<exists>v\<in>set (column_values df c). isna v) cs))" for acc'
    by (rule Cons.IH)
  show ?case
    using a by (simp add: ih null_count_pos [symmetric])
qed

lemma scan_columns_absent:
  "\<not> set cs \<subseteq> set (columns df) \<Longrightarrow> \<forall>c\<in>set cs. count_list (columns df) c \<le> 1 \<Longrightarrow>
   \<exists>c\<in>set cs. c \<notin> set (columns df) \<and>
     scan_columns df cs acc =
       Inl (ValueError (''Column '' @ [CHR 0x27] @ c @ [CHR 0x27] @
                        '' does not exist in the DataFrame.''))"
proof (induction cs arbitrary: acc)
  case Nil
  then show ?case by simp
next
  case (Cons a cs)
  from Cons.prems have once: "\<not> 1 < count_list (columns df) a"
    and rest: "\<forall>c\<in>set cs. count_list (columns df) c \<le> 1"
    by auto
  show ?case
  proof (cases "a \<in> set (columns df)")
    case True
    with Cons.prems have "\<not> set cs \<subseteq> set (columns df)" by simp
    from Cons.IH [OF this rest] True once show ?thesis by simp
  next
    case False
    then show ?thesis by simp
  qed
qed

text \<open>
  C3, as the code has it: for a frame in which no named column is the label of several
  columns, \<open>check_not_null_values\<close> raises a ValueError that names a missing column when
  some named column is not a column of the frame; when all are columns, it raises an
  AssertionError if a named column holds a null, with one line per such column giving
  its count of nulls, and returns otherwise.
\<close>

theorem check_not_null_values_cases:
  assumes "\<forall>c\<in>set column_names. count_list (columns df) c \<le> 1"
  shows
  "(\<not> set column_names \<subseteq> set (columns df) \<longrightarrow>
      (\<exists>c\<in>set column_names. c \<notin> set (columns df) \<and>
         check_not_null_values df column_names =
           Inl (ValueError (''Column '' @ [CHR 0x27] @ c @ [CHR 0x27] @
                            '' does not exist in the DataFrame.'')))) \<and>
   (set column_names \<subseteq> set (columns df) \<longrightarrow>
      ((\<exists>c\<in>set column_names. \<exists>v\<in>set (column_values df c). isna v) \<longrightarrow>
         check_not_null_values df column_names =
           Inl (AssertionError
             (''Found null values in the following columns:'' @ newline @
              join newline (map (\<lambda>c. null_line (c, null_count df c))
                (filter (\<lambda>c. \<exists>v\<in>set (column_values df c). isna v) column_names))))) \<and>
      (\<not> (\<exists>c\<in>set column_names. \<exists>v\<in>set (column_values df c). isna v) \<longrightarrow>
         check_not_null_values df column_names = Inr ()))"
proof (cases "set column_names \<subseteq> set (columns df)")
  case True
  have s: "scan_columns df column_names [] =
     Inr (map (\<lambda>c. (c, null_count df c))
            (filter (\<lambda>c. \<exists>v\<in>set (column_values df c). isna v) column_names))"
    using scan_columns_present [OF True assms, of "[]"] by simp
  show ?thesis
    using True by (simp add: check_not_null_values_def s filter_empty_conv comp_def)
next
  case False
  from scan_columns_absent [OF False assms, of "[]"] obtain c where
    c: "c \<in> set column_names" "c \<notin> set (columns df)"
       "scan_columns df column_names [] =
          Inl (ValueError (''Column '' @ [CHR 0x27] @ c @ [CHR 0x27] @
                           '' does not exist in the DataFrame.''))"
    by blast
  have "check_not_null_values df column_names =
          Inl (ValueError (''Column '' @ [CHR 0x27] @ c @ [CHR 0x27] @
                           '' does not exist in the DataFrame.''))"
    by (simp add: check_not_null_values_def c(3))
  with c(1,2) have "\<exists>c\<in>set column_names. c \<notin> set (columns df) \<and>
         check_not_null_values df column_names =
           Inl (ValueError (''Column '' @ [CHR 0x27] @ c @ [CHR 0x27] @
                            '' does not exist in the DataFrame.''))"
    by (rule_tac x = c in bexI) simp_all
  with False show ?thesis by simp
qed

theorem check_not_null_values_cases_witness:
  "check_not_null_values
     \<lparr>columns = [''a'', ''b''], rows = [(0, [Num 2, NaN]), (5, [PyNone, NaN])]\<rparr> [''b'', ''a''] =
     Inl (AssertionError
       (''Found null values in the following columns:'' @ newline @
        ''  - b: 2 null values'' @ newline @ ''  - a: 1 null values'')) \<and>
   check_not_null_values
     \<lparr>columns = [''a'', ''b''], rows = [(0, [Num 2, NaN]), (5, [PyNone, NaN])]\<rparr> [''b'', ''c''] =
     Inl (ValueError (''Column '' @ [CHR 0x27] @ ''c'' @ [CHR 0x27] @
                      '' does not exist in the DataFrame.'')) \<and>
   check_not_null_values
     \<lparr>columns = [''a'', ''b''], rows = [(0, [Num 2, Str ''x''])]\<rparr> [''b'', ''a''] = Inr ()"
proof -
  let ?d = "\<lparr>columns = [''a'', ''b''], rows = [(0, [Num 2, NaN]), (5, [PyNone, NaN])]\<rparr>"
  let ?e = "\<lparr>columns = [''a'', ''b''], rows = [(0::int, [Num 2, Str ''x''])]\<rparr>"
  have h1: "\<forall>c\<in>set [''b'', ''a'']. count_list (columns ?d) c \<le> 1" by simp
  have h2: "\<forall>c\<in>set [''b'', ''c'']. count_list (columns ?d) c \<le> 1" by simp
  have h3: "\<forall>c\<in>set [''b'', ''a'']. count_list (columns ?e) c \<le> 1" by simp
  from check_not_null_values_cases [OF h1] check_not_null_values_cases [OF h2]
       check_not_null_values_cases [OF h3]
  show ?thesis
    by (simp add: column_values_def null_count_def null_line_def str_int_def str_nat.simps
          digit_char_def)
qed

text \<open>
  A frame with a repeated label: the named column exists and holds a null, and the check
  raises the ValueError of the truth value of a Series, not an AssertionError.
\<close>

theorem repeated_label_counterexample:
  "set [''a''] \<subseteq> set (columns \<lparr>columns = [''a'', ''a''], rows = [(0, [NaN, Num 1])]\<rparr>) \<and>
   isna NaN \<and>
   is_value_error
     (check_not_null_values \<lparr>columns = [''a'', ''a''], rows = [(0, [NaN, Num 1])]\<rparr> [''a'']) \<and>
   \<not> is_assertion
     (check_not_null_values \<lparr>columns = [''a'', ''a''], rows = [(0, [NaN, Num 1])]\<rparr> [''a''])"
  by (simp add: check_not_null_values_def)

subsection \<open>Leaving the context\<close>

lemma enter_ok:
  "enter cm w = (Inr self, w1) \<Longrightarrow>
   self = cm\<lparr>connection := Some (length (trace w)), cursor := Some (Suc (length (trace w)))\<rparr> \<and>
   w1 = w\<lparr>trace := trace w @ [Connected (length (trace w)),
                                CursorOpened (length (trace w)) (Suc (length (trace w)))]\<rparr>"
  by (auto simp: enter_def log_event_def Let_def split: option.splits)

text \<open>
  C8: once the context is entered, leaving it closes the cursor and then the connection
  that entering opened, whatever exception (or none) the block ended with; so does the
  \<^verbatim>\<open>with\<close> statement on both ways out of the block.
\<close>

theorem exit_closes_cursor_then_connection:
  assumes "enter cm w = (Inr self, w1)" and "body self w1 = (r, w2)"
  shows "\<exists>c k. connection self = Some c \<and> cursor self = Some k \<and>
           trace w1 = trace w @ [Connected c, CursorOpened c k] \<and>
           (\<forall>exc. exit self exc w2 =
                    w2\<lparr>trace := trace w2 @ [CursorClosed k, ConnectionClosed c]\<rparr>) \<and>
           with_connector cm body w =
             (r, w2\<lparr>trace := trace w2 @ [CursorClosed k, ConnectionClosed c]\<rparr>)"
proof -
  from enter_ok [OF assms(1)] have
    s: "connection self = Some (length (trace w))" "cursor self = Some (Suc (length (trace w)))"
    and t: "trace w1 = trace w @ [Connected (length (trace w)),
                                CursorOpened (length (trace w)) (Suc (length (trace w)))]"
    by simp_all
  have e: "exit self exc w2 =
      w2\<lparr>trace := trace w2 @ [CursorClosed (Suc (length (trace w))),
                               ConnectionClosed (length (trace w))]\<rparr>" for exc
    by (simp add: exit_def s log_event_def)
  have "with_connector cm body w =
      (r, w2\<lparr>trace := trace w2 @ [CursorClosed (Suc (length (trace w))),
                               ConnectionClosed (length (trace w))]\<rparr>)"
    by (cases r) (simp_all add: with_connector_def assms e)
  with s t e show ?thesis by blast
qed

theorem exit_closes_cursor_then_connection_witness:
  "with_connector (init ''localhost'' ''mydatabase'' 5434 ''u'' ''p'')
     (\<lambda>s w. get_data_sql s ''SELECT 1'' w)
     \<lparr>refuses = None, answer = (\<lambda>q. Inl (ValueError ''no such table'')), trace = []\<rparr> =
   (Inl (Exception ''Failed to execute query: no such table''),
    \<lparr>refuses = None, answer = (\<lambda>q. Inl (ValueError ''no such table'')),
     trace = [Connected 0, CursorOpened 0 1, QueryRun 0 ''SELECT 1'',
              CursorClosed 1, ConnectionClosed 0]\<rparr>) \<and>
   with_connector (init ''localhost'' ''mydatabase'' 5434 ''u'' ''p'')
     (\<lambda>s w. get_data_sql s ''SELECT 1'' w)
     \<lparr>refuses = None, answer = (\<lambda>q. Inr \<lparr>columns = [''x''], rows = [(0, [Num 1])]\<rparr>),
      trace = []\<rparr> =
   (Inr \<lparr>columns = [''x''], rows = [(0, [Num 1])]\<rparr>,
    \<lparr>refuses = None, answer = (\<lambda>q. Inr \<lparr>columns = [''x''], rows = [(0, [Num 1])]\<rparr>),
     trace = [Connected 0, CursorOpened 0 1, QueryRun 0 ''SELECT 1'',
              CursorClosed 1, ConnectionClosed 0]\<rparr>)"
proof -
  let ?cm = "init ''localhost'' ''mydatabase'' 5434 ''u'' ''p''"
  let ?self = "?cm\<lparr>connection := Some 0, cursor := Some (Suc 0)\<rparr>"
  let ?body = "\<lambda>s w. get_data_sql s ''SELECT 1'' w"
  let ?bad = "\<lambda>q::string. Inl (ValueError ''no such table'') :: error + dataframe"
  let ?good = "\<lambda>q::string. Inr \<lparr>columns = [''x''], rows = [(0, [Num 1])]\<rparr> :: error + dataframe"
  let ?tr = "[Connected 0, CursorOpened 0 (Suc 0)]"
  have e1: "enter ?cm \<lparr>refuses = None, answer = ?bad, trace = []\<rparr> =
              (Inr ?self, \<lparr>refuses = None, answer = ?bad, trace = ?tr\<rparr>)"
    by (simp add: enter_def log_event_def Let_def)
  have b1: "?body ?self \<lparr>refuses = None, answer = ?bad, trace = ?tr\<rparr> =
              (Inl (Exception ''Failed to execute query: no such table''),
               \<lparr>refuses = None, answer = ?bad, trace = ?tr @ [QueryRun 0 ''SELECT 1'']\<rparr>)"
    by (simp add: get_data_sql_def log_event_def)
  have e2: "enter ?cm \<lparr>refuses = None, answer = ?good, trace = []\<rparr> =
              (Inr ?self, \<lparr>refuses = None, answer = ?good, trace = ?tr\<rparr>)"
    by (simp add: enter_def log_event_def Let_def)
  have b2: "?body ?self \<lparr>refuses = None, answer = ?good, trace = ?tr\<rparr> =
              (Inr \<lparr>columns = [''x''], rows = [(0, [Num 1])]\<rparr>,
               \<lparr>refuses = None, answer = ?good, trace = ?tr @ [QueryRun 0 ''SELECT 1'']\<rparr>)"
    by (simp add: get_data_sql_def log_event_def)
  from exit_closes_cursor_then_connection [where body = ?body, OF e1 b1]
       exit_closes_cursor_then_connection [where body = ?body, OF e2 b2]
  show ?thesis by simp
qed

subsection \<open>Every occurrence of a duplicated row\<close>















lemma str_int_2: "str_int 2 = ''2''"
  by (simp add: str_int_def str_nat.simps digit_char_def)



subsection \<open>Completeness: the sorted comparison\<close>

lemma map_insort_key: "map f (insort_key f x xs) = insort (f x) (map f xs)"
  by (induction xs) simp_all

lemma map_sort_key: "map f (sort_key f xs) = sort (map f xs)"
  by (induction xs) (simp_all add: map_insort_key)

lemma sorted_frame:
  "reset_index (sort_values (reset_index df)) =
     \<lparr>columns = columns df,
      rows = zip (map int [0..<length (rows df)]) (sort (map snd (rows df)))\<rparr>"
  by (simp add: reset_index_def sort_values_def map_sort_key)








lemma assert_frame_equal_kind:
  "assert_frame_equal l r = Inr () \<or> is_assertion (assert_frame_equal l r)"
  by (simp add: assert_frame_equal_def)













subsection \<open>Completeness: when the merge fails\<close>

text \<open>
  C6: when the comparison of the sorted frames fails and the merge raises, the check
  raises an AssertionError, not the exception of the merge; its text is the two row
  counts and their absolute difference, the text of the merge's exception and the list of
  possible causes, with no rows of either side.
\<close>

theorem merge_failure_reports_counts_and_causes:
  assumes "assert_frame_equal (reset_index (sort_values (reset_index source_df)))
             (reset_index (sort_values (reset_index target_df))) = Inl e"
    and "merge (reset_index (sort_values (reset_index source_df)))
           (reset_index (sort_values (reset_index target_df))) = Inl merge_error"
  shows "check_data_completeness merge to_string source_df target_df max_display =
     Inl (AssertionError
       (''Data completeness check failed:'' @ newline @ newline @
        ''Row count - Source: '' @ str_int (len source_df) @
        '', Target: '' @ str_int (len target_df) @ newline @
        ''Difference: '' @ str_int \<bar>len source_df - len target_df\<bar> @ '' rows'' @
        newline @ newline @
        newline @ ''Unable to perform detailed comparison: '' @ error_text merge_error @
        newline @ newline @ ''Possible causes:'' @ newline @
        ''- Data type mismatches between source and target'' @ newline @
        ''- Column name differences'' @ newline @
        ''- Date/datetime format inconsistencies'' @ newline))"
proof -
  have l: "len (reset_index (sort_values (reset_index d))) = len d" for d
    by (simp add: len_def sorted_frame)
  show ?thesis
    using assms
    by (simp add: check_data_completeness_def Let_def compare_sorted_def detail_msg_def
          count_msg_def causes_msg_def l)
qed

lemma str_int_small: "str_int 1 = ''1''" "str_int 3 = ''3''"
  by (simp_all add: str_int_def str_nat.simps digit_char_def)

theorem merge_failure_reports_counts_and_causes_witness:
  "check_data_completeness merge_outer (\<lambda>d. ''rows'')
     \<lparr>columns = [''min_time_spent''], rows = [(0, [Num 2]), (5, [Num 1])]\<rparr>
     \<lparr>columns = [''min_time''], rows = [(0, [Num 1]), (1, [Num 3]), (2, [NaN])]\<rparr> 10 =
   Inl (AssertionError
     (''Data completeness check failed:'' @ newline @ newline @
      ''Row count - Source: 2, Target: 3'' @ newline @
      ''Difference: 1 rows'' @ newline @ newline @ newline @
      ''Unable to perform detailed comparison: No common columns to perform merge on. '' @
      ''Merge options: left_on=None, right_on=None, left_index=False, right_index=False'' @
      newline @ newline @ ''Possible causes:'' @ newline @
      ''- Data type mismatches between source and target'' @ newline @
      ''- Column name differences'' @ newline @
      ''- Date/datetime format inconsistencies'' @ newline))"
proof -
  let ?S = "\<lparr>columns = [''min_time_spent''], rows = [(0, [Num 2]), (5, [Num 1])]\<rparr>"
  let ?T = "\<lparr>columns = [''min_time''], rows = [(0, [Num 1]), (1, [Num 3]), (2, [NaN])]\<rparr>"
  have a: "assert_frame_equal (reset_index (sort_values (reset_index ?S)))
             (reset_index (sort_values (reset_index ?T))) =
           Inl (AssertionError ''DataFrame shape mismatch'')"
    by (simp add: assert_frame_equal_def sorted_frame)
  have m: "merge_outer (reset_index (sort_values (reset_index ?S)))
             (reset_index (sort_values (reset_index ?T))) =
           Inl (MergeError
             (''No common columns to perform merge on. Merge options: left_on=None, '' @
              ''right_on=None, left_index=False, right_index=False''))"
    by (simp add: merge_outer_def sorted_frame Let_def)
  from merge_failure_reports_counts_and_causes
         [where merge = merge_outer and to_string = "\<lambda>d. ''rows''" and max_display = 10,
          OF a m]
  show ?thesis by (simp add: len_def str_int_2 str_int_small)
qed

subsection \<open>Completeness: the inputs are left as they were\<close>

text \<open>
  C7: with the frames as objects of a store, the check leaves every object that was there
  before the call as it was, the source and the target among them (rows, order and
  labels), whether it passes or raises; it works on objects it allocates, and its result
  is that of the check on the values.
\<close>

theorem check_data_completeness_refs_keeps_inputs:
  assumes "source_df < length h" and "target_df < length h"
  shows "take (length h)
           (snd (check_data_completeness_refs merge to_string h source_df target_df n)) = h \<and>
         snd (check_data_completeness_refs merge to_string h source_df target_df n) ! source_df =
           h ! source_df \<and>
         snd (check_data_completeness_refs merge to_string h source_df target_df n) ! target_df =
           h ! target_df \<and>
         fst (check_data_completeness_refs merge to_string h source_df target_df n) =
           check_data_completeness merge to_string (h ! source_df) (h ! target_df) n"
  using assms
  by (simp add: check_data_completeness_refs_def check_data_completeness_def new_object_def
        Let_def nth_append)

theorem check_data_completeness_refs_keeps_inputs_witness:
  "snd (check_data_completeness_refs merge_outer (\<lambda>d. ''rows'')
      [\<lparr>columns = [''a''], rows = [(7, [Num 2]), (5, [Num 1])]\<rparr>,
       \<lparr>columns = [''a''], rows = [(0, [Num 1]), (1, [Num 2])]\<rparr>] 0 1 10) ! 0 =
     \<lparr>columns = [''a''], rows = [(7, [Num 2]), (5, [Num 1])]\<rparr> \<and>
   snd (check_data_completeness_refs merge_outer (\<lambda>d. ''rows'')
      [\<lparr>columns = [''a''], rows = [(7, [Num 2]), (5, [Num 1])]\<rparr>,
       \<lparr>columns = [''a''], rows = [(0, [Num 1]), (1, [Num 2])]\<rparr>] 0 1 10) ! 1 =
     \<lparr>columns = [''a''], rows = [(0, [Num 1]), (1, [Num 2])]\<rparr>"
  using check_data_completeness_refs_keeps_inputs
    [of 0 "[\<lparr>columns = [''a''], rows = [(7, [Num 2]), (5, [Num 1])]\<rparr>,
            \<lparr>columns = [''a''], rows = [(0, [Num 1]), (1, [Num 2])]\<rparr>]" 1
        merge_outer "\<lambda>d. ''rows''" 10]
  by simp

end
